theory Spec2Isabelle
  imports Main
begin

section \<open>Python values used by \<open>aws/hhvm1/lambdas/activities.py\<close>\<close>

text \<open>
  Exceptions are values. \<open>Exception\<close> is the generic error the module raises itself; the
  other constructors are the errors Python raises on a missing dictionary key, a missing
  method, the concatenation of a string with \<open>None\<close>, and the parameter validation of the
  EC2 client.
\<close>

datatype error =
    Exception string
  | KeyError string
  | AttributeError string
  | TypeError string
  | ParamValidationError string

text \<open>
  A dictionary with string keys is an association list in insertion order; a well-formed
  dictionary has no key twice. A Python set is a list without duplicates; the order of
  the list stands for the iteration order, which Python leaves open.
\<close>

type_synonym 'v dict = "(string \<times> 'v) list"

definition dict_get :: "'v dict \<Rightarrow> string \<Rightarrow> error + 'v" where
  "dict_get d k = (case map_of d k of None \<Rightarrow> Inl (KeyError k) | Some v \<Rightarrow> Inr v)"

definition dict_keys :: "'v dict \<Rightarrow> string list" where
  "dict_keys d = map fst d"

definition dict_values :: "'v dict \<Rightarrow> 'v list" where
  "dict_values d = map snd d"

fun dict_set :: "'v dict \<Rightarrow> string \<Rightarrow> 'v \<Rightarrow> 'v dict" where
  "dict_set [] k v = [(k, v)]"
| "dict_set ((k', v') # d) k v =
     (if k' = k then (k, v) # d else (k', v') # dict_set d k v)"

text \<open>\<open>d.update(u)\<close>: every entry of \<open>u\<close>, in order, replaces or extends \<open>d\<close>.\<close>

fun dict_update :: "'v dict \<Rightarrow> 'v dict \<Rightarrow> 'v dict" where
  "dict_update d [] = d"
| "dict_update d ((k, v) # u) = dict_update (dict_set d k v) u"

text \<open>\<open>sep.join(xs)\<close>\<close>

fun join :: "string \<Rightarrow> string list \<Rightarrow> string" where
  "join sep [] = []"
| "join sep [x] = x"
| "join sep (x # y # ys) = x @ sep @ join sep (y # ys)"

text \<open>
  A class attribute is \<open>None\<close> or a string. \<open>truthy\<close> is Python's truth value of it,
  \<open>format_attr\<close> what an f-string prints for it.
\<close>

definition truthy :: "string option \<Rightarrow> bool" where
  "truthy s = (case s of None \<Rightarrow> False | Some t \<Rightarrow> t \<noteq> [])"

definition format_attr :: "string option \<Rightarrow> string" where
  "format_attr s = (case s of None \<Rightarrow> ''None'' | Some t \<Rightarrow> t)"

section \<open>\<open>any_unpublished\<close>\<close>

text \<open>
  \<^verbatim>\<open>
  def any_unpublished(statuses):
    if any(s == 'not_built' for s in statuses.values()):
      raise Exception(
        'cannot publish because there are unbuilt packages: ' +
        ', '.join(p for p in statuses if statuses[p] == 'not_built')
      )
    return any(s == 'built_not_published' for s in statuses.values())
  \<close>
\<close>

definition any_unpublished :: "string dict \<Rightarrow> error + bool" where
  "any_unpublished statuses =
     (if list_ex (\<lambda>s. s = ''not_built'') (dict_values statuses)
      then Inl (Exception
        (''cannot publish because there are unbuilt packages: '' @
         join '', '' (filter (\<lambda>p. map_of statuses p = Some ''not_built'') (dict_keys statuses))))
      else Inr (list_ex (\<lambda>s. s = ''built_not_published'') (dict_values statuses)))"

section \<open>Events, the \<open>common\<close> module and the services the module queries\<close>

text \<open>
  The event is the JSON object the workflow engine hands to the lambda. The module reads
  \<open>event['version']\<close>, \<open>event['platform']\<close> and \<open>event['buildInput']['platforms']\<close>;
  a field is \<open>None\<close> when the key is absent, and reading it then raises \<open>KeyError\<close>.
  \<open>event_rest\<close> holds the keys this module never reads.
\<close>

record build_input =
  platforms :: "string list option"

record event =
  event_version :: "string option"
  event_platform :: "string option"
  event_buildInput :: "build_input option"
  event_rest :: "string dict"

text \<open>
  The module \<open>common\<close> is imported, not defined, by \<open>activities.py\<close>: what it provides is a
  parameter of every definition below.
\<close>

record common =
  common_fake_ec2 :: "event \<Rightarrow> bool"
  common_url :: "string \<Rightarrow> string"
  common_format_env :: "string dict \<Rightarrow> string"
  common_fetch :: "string \<Rightarrow> string"
  common_env_for_version :: "string \<Rightarrow> string dict"
  common_build_status :: "string \<Rightarrow> string \<Rightarrow> string"
  common_build_statuses :: "string \<Rightarrow> string dict"
  common_is_linux :: "string \<Rightarrow> bool"
  common_is_nightly :: "string \<Rightarrow> bool"
  Config_macos_versions :: "string dict"

text \<open>
  The services behind \<open>boto3\<close> and \<open>urllib.request\<close>: the EC2 instances of the account, the
  answer of S3's \<open>list_objects\<close> for a bucket and a prefix (its \<open>Contents\<close>, when the answer
  has that key), and the decoded JSON list of tags behind a registry URL.
\<close>

record ec2_instance =
  instance_state_name :: string
  instance_tags :: "string dict"

record ec2_filter =
  filter_Name :: string
  filter_Values :: "string list"

record s3_object =
  Key :: string

record docker_tag =
  tag_name :: string

record services =
  ec2_instances :: "ec2_instance list"
  s3_list_objects :: "string \<Rightarrow> string \<Rightarrow> s3_object list option"
  urlopen_json :: "string \<Rightarrow> docker_tag list"

text \<open>
  \<open>boto3.resource('ec2').instances.filter(Filters=...)\<close>, as the EC2 API documents it: an
  instance is listed when it matches every filter, and it matches a filter when one of the
  filter's values fits; \<open>tag:K\<close> compares the value of the instance's tag \<open>K\<close>,
  \<open>instance-state-name\<close> the state of the instance. \<open>MaxResults\<close> is the size of a page
  and does not change which instances the collection yields.
\<close>

definition matches_filter :: "ec2_instance \<Rightarrow> ec2_filter \<Rightarrow> bool" where
  "matches_filter i f =
     (if take 4 (filter_Name f) = ''tag:''
      then (case map_of (instance_tags i) (drop 4 (filter_Name f)) of
              None \<Rightarrow> False
            | Some v \<Rightarrow> v \<in> set (filter_Values f))
      else if filter_Name f = ''instance-state-name''
      then instance_state_name i \<in> set (filter_Values f)
      else False)"

definition instances_filter :: "services \<Rightarrow> ec2_filter list \<Rightarrow> ec2_instance list" where
  "instances_filter w fs = filter (\<lambda>i. list_all (matches_filter i) fs) (ec2_instances w)"

section \<open>The class \<open>Activity\<close> and its subclasses\<close>

datatype activity_class =
    Activity
  | MakeSourceTarball
  | MakeBinaryPackage
  | PublishBinaryPackages
  | PublishSourceTarball
  | PublishDockerImages
  | BuildAndPublishMacOS

text \<open>The subclasses of \<open>Activity\<close> the module defines, in the order of the file.\<close>

definition concrete_subclasses :: "activity_class list" where
  "concrete_subclasses =
     [MakeSourceTarball, MakeBinaryPackage, PublishBinaryPackages, PublishSourceTarball,
      PublishDockerImages, BuildAndPublishMacOS]"

text \<open>The class attributes, and \<open>type(self).__name__\<close>.\<close>

record class_attrs =
  cls_name :: string
  ec2_iam_arn :: "string option"
  activity_arn :: "string option"
  script_name :: "string option"
  init_script :: "string option"

fun attrs :: "activity_class \<Rightarrow> class_attrs" where
  "attrs Activity =
     \<lparr>cls_name = ''Activity'', ec2_iam_arn = None, activity_arn = None, script_name = None,
      init_script = None\<rparr>"
| "attrs MakeSourceTarball =
     \<lparr>cls_name = ''MakeSourceTarball'',
      ec2_iam_arn = Some ''arn:aws:iam::223121549624:instance-profile/hhvm-source-tarball-builder'',
      activity_arn = Some ''arn:aws:states:us-west-2:223121549624:activity:hhvm-make-source-tarball'',
      script_name = Some ''make-source-tarball.sh'',
      init_script = None\<rparr>"
| "attrs MakeBinaryPackage =
     \<lparr>cls_name = ''MakeBinaryPackage'',
      ec2_iam_arn = Some ''arn:aws:iam::223121549624:instance-profile/hhvm-binary-package-builder'',
      activity_arn = Some ''arn:aws:states:us-west-2:223121549624:activity:hhvm-make-binary-package'',
      script_name = Some ''make-binary-package.sh'',
      init_script = None\<rparr>"
| "attrs PublishBinaryPackages =
     \<lparr>cls_name = ''PublishBinaryPackages'',
      ec2_iam_arn = Some ''arn:aws:iam::223121549624:instance-profile/hhvm-repo-builders'',
      activity_arn = Some ''arn:aws:states:us-west-2:223121549624:activity:hhvm-publish-binary-packages'',
      script_name = Some ''update-repos.sh'',
      init_script = Some ''aws/hhvm1/worker/init/update-repos.sh''\<rparr>"
| "attrs PublishSourceTarball =
     \<lparr>cls_name = ''PublishSourceTarball'',
      ec2_iam_arn = Some ''arn:aws:iam::223121549624:instance-profile/hhvm-source-tarball-builder'',
      activity_arn = Some ''arn:aws:states:us-west-2:223121549624:activity:hhvm-publish-source-tarball'',
      script_name = Some ''publish-release-source.sh'',
      init_script = None\<rparr>"
| "attrs PublishDockerImages =
     \<lparr>cls_name = ''PublishDockerImages'',
      ec2_iam_arn = Some ''arn:aws:iam::223121549624:instance-profile/hhvm-repo-builders'',
      activity_arn = Some ''arn:aws:states:us-west-2:223121549624:activity:hhvm-publish-docker-images'',
      script_name = Some ''update-repos.sh'',
      init_script = None\<rparr>"
| "attrs BuildAndPublishMacOS =
     \<lparr>cls_name = ''BuildAndPublishMacOS'',
      ec2_iam_arn = Some ''arn:aws:iam::223121549624:instance-profile/hhvm-macos-builds-triggerer'',
      activity_arn = Some ''arn:aws:states:us-west-2:223121549624:activity:hhvm-build-and-publish-macos'',
      script_name = Some ''trigger-macos-builds.sh'',
      init_script = None\<rparr>"

text \<open>
  An instance: its class, and the two attributes \<open>__init__\<close> sets.
  \<^verbatim>\<open>
  def __init__(self, event):
    self.event = event
    self.fake_ec2 = common.fake_ec2(event)
  \<close>
\<close>

record activity =
  cls :: activity_class
  event :: event
  fake_ec2 :: bool

definition init :: "common \<Rightarrow> activity_class \<Rightarrow> event \<Rightarrow> activity" where
  "init c k ev = \<lparr>cls = k, event = ev, fake_ec2 = common_fake_ec2 c ev\<rparr>"

definition version :: "activity \<Rightarrow> error + string" where
  "version self =
     (case event_version (event self) of
        None \<Rightarrow> Inl (KeyError ''version'')
      | Some v \<Rightarrow> Inr v)"

definition platform :: "activity \<Rightarrow> error + string" where
  "platform self =
     (case event_platform (event self) of
        None \<Rightarrow> Inl (KeyError ''platform'')
      | Some p \<Rightarrow> Inr p)"

text \<open>
  \<open>worker_env\<close> is \<open>{}\<close> in the base class; \<open>BuildAndPublishMacOS\<close> overrides it.
\<close>

definition worker_env :: "activity \<Rightarrow> string dict" where
  "worker_env self =
     (if cls self = BuildAndPublishMacOS then [(''SKIP_SEND_TASK_SUCCESS'', ''1'')] else [])"

subsection \<open>\<open>has_ec2_workers\<close> and \<open>needs_ec2_worker\<close>\<close>

text \<open>
  \<^verbatim>\<open>
  def has_ec2_workers(self):
    for _ in boto3.resource('ec2').instances.filter(
      Filters=[
        {'Name': 'tag:ActivityArn', 'Values': [self.activity_arn]},
        {'Name': 'instance-state-name', 'Values': ['pending', 'running']},
      ],
      MaxResults=5,
    ):
      return True
    return False
  \<close>
  The client refuses a filter value that is not a string, which is what \<open>activity_arn\<close> is
  in a class that leaves it \<open>None\<close>.
\<close>

definition has_ec2_workers :: "services \<Rightarrow> activity \<Rightarrow> error + bool" where
  "has_ec2_workers w self =
     (case activity_arn (attrs (cls self)) of
        None \<Rightarrow> Inl (ParamValidationError ''Filters[0].Values[0]'')
      | Some arn \<Rightarrow>
          Inr (instances_filter w
                 [\<lparr>filter_Name = ''tag:ActivityArn'', filter_Values = [arn]\<rparr>,
                  \<lparr>filter_Name = ''instance-state-name'',
                   filter_Values = [''pending'', ''running'']\<rparr>] \<noteq> []))"

text \<open>
  The base class answers \<open>True\<close>; \<open>PublishBinaryPackages\<close> overrides it with
  \<open>not self.has_ec2_workers()\<close>.
\<close>

definition needs_ec2_worker :: "services \<Rightarrow> activity \<Rightarrow> error + bool" where
  "needs_ec2_worker w self =
     (if cls self = PublishBinaryPackages
      then (case has_ec2_workers w self of Inl e \<Rightarrow> Inl e | Inr b \<Rightarrow> Inr (\<not> b))
      else Inr True)"

subsection \<open>\<open>ec2_params\<close>\<close>

text \<open>The values of a launch configuration.\<close>

datatype pyval =
    VNone
  | VStr string
  | VInt int
  | VBool bool
  | VList "pyval list"
  | VDict "(string \<times> pyval) list"

definition attr_val :: "string option \<Rightarrow> pyval" where
  "attr_val s = (case s of None \<Rightarrow> VNone | Some t \<Rightarrow> VStr t)"

text \<open>
  The f-string of \<open>UserData\<close>, with its line breaks and indentation as in the source.
\<close>

definition user_data :: "string \<Rightarrow> string \<Rightarrow> string \<Rightarrow> string \<Rightarrow> string \<Rightarrow> string" where
  "user_data arn script_url init_url env worker =
     ''#!/bin/bash'' @ [CHR 0x0A] @
     ''        ACTIVITY_ARN='' @ [CHR 0x22] @ arn @ [CHR 0x22] @ [CHR 0x0A] @
     ''        SCRIPT_URL='' @ [CHR 0x22] @ script_url @ [CHR 0x22] @ [CHR 0x0A] @
     ''        INIT_URL='' @ [CHR 0x22] @ init_url @ [CHR 0x22] @ [CHR 0x0A] @
     ''        '' @ env @ [CHR 0x0A] @
     ''        '' @ worker @ [CHR 0x0A] @
     ''      ''"

text \<open>
  The method of the base class. It reads the class attributes of \<open>type(self)\<close>, the result
  of \<open>self.worker_env()\<close> and \<open>self.fake_ec2\<close>, which are its arguments here, so that it is
  defined for the attributes of any subclass.
  \<^verbatim>\<open>
  def ec2_params(self):
    if not self.ec2_iam_arn or not self.activity_arn or not self.script_name:
      raise Exception('missing config in ' + type(self).__name__)

    script_url = common.url(
      'aws/hhvm1/worker/dummy-task.sh' if self.fake_ec2
      else 'aws/userdata/' + self.script_name
    )
    init_url = common.url(self.init_script) if self.init_script else ''
    return { 'ImageId': 'ami-6e1a0117', 'MaxCount': 1, 'MinCount': 1, ... }
  \<close>
\<close>

definition script_path :: "class_attrs \<Rightarrow> bool \<Rightarrow> error + string" where
  "script_path a fake =
     (if fake then Inr ''aws/hhvm1/worker/dummy-task.sh''
      else (case script_name a of
              None \<Rightarrow> Inl (TypeError ''can only concatenate str (not NoneType) to str'')
            | Some sn \<Rightarrow> Inr (''aws/userdata/'' @ sn)))"

definition Activity_ec2_params ::
  "common \<Rightarrow> class_attrs \<Rightarrow> string dict \<Rightarrow> bool \<Rightarrow> error + pyval dict" where
  "Activity_ec2_params c a wenv fake =
     (if \<not> truthy (ec2_iam_arn a) \<or> \<not> truthy (activity_arn a) \<or> \<not> truthy (script_name a)
      then Inl (Exception (''missing config in '' @ cls_name a))
      else
        (case script_path a fake of
           Inl e \<Rightarrow> Inl e
         | Inr path \<Rightarrow>
             (let script_url = common_url c path;
                  init_url = (case init_script a of
                                None \<Rightarrow> ''''
                              | Some s \<Rightarrow> (if s = [] then '''' else common_url c s))
              in Inr
                [(''ImageId'', VStr ''ami-6e1a0117''),
                 (''MaxCount'', VInt 1),
                 (''MinCount'', VInt 1),
                 (''InstanceType'', VStr ''t2.micro''),
                 (''SecurityGroups'', VList [VStr ''hhvm-binary-package-builders'']),
                 (''InstanceInitiatedShutdownBehavior'', VStr ''terminate''),
                 (''IamInstanceProfile'', VDict [(''Arn'', attr_val (ec2_iam_arn a))]),
                 (''KeyName'', VStr ''hhvm-package-builders''),
                 (''TagSpecifications'', VList [VDict
                    [(''ResourceType'', VStr ''instance''),
                     (''Tags'', VList
                        [VDict [(''Key'', VStr ''Name''),
                                (''Value'', VStr (''ww-0-'' @ cls_name a))],
                         VDict [(''Key'', VStr ''ActivityArn''),
                                (''Value'', attr_val (activity_arn a))]])]]),
                 (''UserData'', VStr
                    (user_data (format_attr (activity_arn a)) script_url init_url
                       (common_format_env c wenv)
                       (common_fetch c ''aws/hhvm1/worker/worker.sh'')))])))"

text \<open>
  The overrides call \<open>super().ec2_params()\<close> and \<open>update\<close> the result.
\<close>

definition super_ec2_params :: "common \<Rightarrow> activity \<Rightarrow> error + pyval dict" where
  "super_ec2_params c self =
     Activity_ec2_params c (attrs (cls self)) (worker_env self) (fake_ec2 self)"

definition block_device_mappings :: "int \<Rightarrow> pyval" where
  "block_device_mappings volume_size =
     VList [VDict
       [(''DeviceName'', VStr ''/dev/sda1''),
        (''Ebs'', VDict
           [(''DeleteOnTermination'', VBool True),
            (''VolumeSize'', VInt volume_size),
            (''VolumeType'', VStr ''gp2'')])]]"

definition MakeSourceTarball_ec2_params :: "common \<Rightarrow> activity \<Rightarrow> error + pyval dict" where
  "MakeSourceTarball_ec2_params c self =
     (case super_ec2_params c self of
        Inl e \<Rightarrow> Inl e
      | Inr params \<Rightarrow>
          Inr (dict_update params [(''BlockDeviceMappings'', block_device_mappings 16)]))"

definition MakeBinaryPackage_ec2_params :: "common \<Rightarrow> activity \<Rightarrow> error + pyval dict" where
  "MakeBinaryPackage_ec2_params c self =
     (case super_ec2_params c self of
        Inl e \<Rightarrow> Inl e
      | Inr params \<Rightarrow>
          Inr (dict_update params
                 [(''InstanceType'', VStr ''m5.2xlarge''),
                  (''BlockDeviceMappings'', block_device_mappings 95)]))"

definition PublishBinaryPackages_ec2_params :: "common \<Rightarrow> activity \<Rightarrow> error + pyval dict" where
  "PublishBinaryPackages_ec2_params c self =
     (case super_ec2_params c self of
        Inl e \<Rightarrow> Inl e
      | Inr params \<Rightarrow>
          Inr (dict_update params
                 [(''Placement'', VDict [(''AvailabilityZone'', VStr ''us-west-2a'')]),
                  (''BlockDeviceMappings'', block_device_mappings 100)]))"

text \<open>Method lookup: the override of the instance's class, else the method of the base class.\<close>

definition ec2_params :: "common \<Rightarrow> activity \<Rightarrow> error + pyval dict" where
  "ec2_params c self =
     (case cls self of
        MakeSourceTarball \<Rightarrow> MakeSourceTarball_ec2_params c self
      | MakeBinaryPackage \<Rightarrow> MakeBinaryPackage_ec2_params c self
      | PublishBinaryPackages \<Rightarrow> PublishBinaryPackages_ec2_params c self
      | _ \<Rightarrow> super_ec2_params c self)"

subsection \<open>\<open>should_run\<close>\<close>

text \<open>
  \<^verbatim>\<open>
  def should_run(self):
    env = common.env_for_version(self.version())
    return not any(
      obj['Key'] == env['S3_PATH']
        for obj in boto3.client('s3')
          .list_objects(Bucket=env['S3_BUCKET'], Prefix=env['S3_PATH'])
          .get('Contents', [])
    )
  \<close>
\<close>

definition MakeSourceTarball_should_run :: "common \<Rightarrow> services \<Rightarrow> activity \<Rightarrow> error + bool" where
  "MakeSourceTarball_should_run c w self =
     (case version self of
        Inl e \<Rightarrow> Inl e
      | Inr v \<Rightarrow>
          (let env = common_env_for_version c v in
           case dict_get env ''S3_BUCKET'' of
             Inl e \<Rightarrow> Inl e
           | Inr bucket \<Rightarrow>
               (case dict_get env ''S3_PATH'' of
                  Inl e \<Rightarrow> Inl e
                | Inr path \<Rightarrow>
                    (let contents = (case s3_list_objects w bucket path of
                                       None \<Rightarrow> []
                                     | Some objs \<Rightarrow> objs)
                     in Inr (\<not> list_ex (\<lambda>obj. Key obj = path) contents)))))"

text \<open>
  \<^verbatim>\<open>
  def should_run(self):
    return common.build_status(self.version(), self.platform()) == 'not_built'
  \<close>
\<close>

definition MakeBinaryPackage_should_run :: "common \<Rightarrow> activity \<Rightarrow> error + bool" where
  "MakeBinaryPackage_should_run c self =
     (case version self of
        Inl e \<Rightarrow> Inl e
      | Inr v \<Rightarrow>
          (case platform self of
             Inl e \<Rightarrow> Inl e
           | Inr p \<Rightarrow> Inr (common_build_status c v p = ''not_built'')))"

text \<open>
  \<^verbatim>\<open>
  def should_run(self):
    return any_unpublished({
      platform: status
        for platform, status in common.build_statuses(self.version()).items()
        if common.is_linux(platform)
    })
  \<close>
\<close>

definition PublishBinaryPackages_should_run :: "common \<Rightarrow> activity \<Rightarrow> error + bool" where
  "PublishBinaryPackages_should_run c self =
     (case version self of
        Inl e \<Rightarrow> Inl e
      | Inr v \<Rightarrow>
          any_unpublished
            (filter (\<lambda>(platform, status). common_is_linux c platform)
               (common_build_statuses c v)))"

text \<open>
  \<^verbatim>\<open>
  def should_run(self):
    return not common.is_nightly(self.version()) and any_unpublished({
      platform: status
        for platform, status in common.build_statuses(self.version()).items()
        if platform in {'source', 'source_gpg'}
    })
  \<close>
  The right operand of \<open>and\<close> is evaluated only when the left one is true.
\<close>

definition PublishSourceTarball_should_run :: "common \<Rightarrow> activity \<Rightarrow> error + bool" where
  "PublishSourceTarball_should_run c self =
     (case version self of
        Inl e \<Rightarrow> Inl e
      | Inr v \<Rightarrow>
          (if \<not> common_is_nightly c v
           then any_unpublished
                  (filter (\<lambda>(platform, status). platform \<in> set [''source'', ''source_gpg''])
                     (common_build_statuses c v))
           else Inr False))"

text \<open>
  \<^verbatim>\<open>
  def docker_tags(self, repo):
    return {
      tag['name'] for tag in json.loads(
        request
          .urlopen(f'https://index.docker.io/v1/repositories/hhvm/{repo}/tags')
          .read()
          .decode('ascii')
      )
    }

  def should_run(self):
    return (
      self.version() not in self.docker_tags('hhvm') or
      self.version() not in self.docker_tags('hhvm-proxygen')
    )
  \<close>
\<close>

definition docker_tags :: "services \<Rightarrow> string \<Rightarrow> string list" where
  "docker_tags w repo =
     remdups (map tag_name
       (urlopen_json w (''https://index.docker.io/v1/repositories/hhvm/'' @ repo @ ''/tags'')))"

definition PublishDockerImages_should_run :: "services \<Rightarrow> activity \<Rightarrow> error + bool" where
  "PublishDockerImages_should_run w self =
     (case version self of
        Inl e \<Rightarrow> Inl e
      | Inr v \<Rightarrow>
          (if v \<notin> set (docker_tags w ''hhvm'') then Inr True
           else Inr (v \<notin> set (docker_tags w ''hhvm-proxygen''))))"

text \<open>
  \<^verbatim>\<open>
  def platforms_to_build(self):
    requested = common.Config.macos_versions.keys()
    if self.event['buildInput']['platforms']:
      requested = {
        p for p in requested if p in self.event['buildInput']['platforms']
      }

    return set() if not requested else {
      platform
        for platform, status in common.build_statuses(self.version()).items()
        if status != 'succeeded' and platform in requested
    }
  \<close>
\<close>

definition event_platforms :: "activity \<Rightarrow> error + string list" where
  "event_platforms self =
     (case event_buildInput (event self) of
        None \<Rightarrow> Inl (KeyError ''buildInput'')
      | Some bi \<Rightarrow>
          (case platforms bi of
             None \<Rightarrow> Inl (KeyError ''platforms'')
           | Some ps \<Rightarrow> Inr ps))"

definition platforms_to_build :: "common \<Rightarrow> activity \<Rightarrow> error + string list" where
  "platforms_to_build c self =
     (case event_platforms self of
        Inl e \<Rightarrow> Inl e
      | Inr ps \<Rightarrow>
          (let requested =
                 (if ps \<noteq> []
                  then remdups (filter (\<lambda>p. p \<in> set ps) (dict_keys (Config_macos_versions c)))
                  else dict_keys (Config_macos_versions c))
           in if requested = [] then Inr []
              else (case version self of
                      Inl e \<Rightarrow> Inl e
                    | Inr v \<Rightarrow>
                        Inr (remdups (map fst
                          (filter (\<lambda>(platform, status).
                                     status \<noteq> ''succeeded'' \<and> platform \<in> set requested)
                             (common_build_statuses c v)))))))"

text \<open>
  \<^verbatim>\<open>
  def should_run(self):
    return bool(self.platforms_to_build())
  \<close>
\<close>

definition BuildAndPublishMacOS_should_run :: "common \<Rightarrow> activity \<Rightarrow> error + bool" where
  "BuildAndPublishMacOS_should_run c self =
     (case platforms_to_build c self of
        Inl e \<Rightarrow> Inl e
      | Inr ps \<Rightarrow> Inr (ps \<noteq> []))"

text \<open>The base class has no \<open>should_run\<close>.\<close>

definition should_run :: "common \<Rightarrow> services \<Rightarrow> activity \<Rightarrow> error + bool" where
  "should_run c w self =
     (case cls self of
        Activity \<Rightarrow> Inl (AttributeError ''should_run'')
      | MakeSourceTarball \<Rightarrow> MakeSourceTarball_should_run c w self
      | MakeBinaryPackage \<Rightarrow> MakeBinaryPackage_should_run c self
      | PublishBinaryPackages \<Rightarrow> PublishBinaryPackages_should_run c self
      | PublishSourceTarball \<Rightarrow> PublishSourceTarball_should_run c self
      | PublishDockerImages \<Rightarrow> PublishDockerImages_should_run w self
      | BuildAndPublishMacOS \<Rightarrow> BuildAndPublishMacOS_should_run c self)"

subsection \<open>\<open>task_env\<close>\<close>

text \<open>
  \<^verbatim>\<open>
  def task_env(self):
    platforms = self.platforms_to_build()
    if len(platforms) == len(common.Config.macos_versions):
      return {}  # build all platforms
    elif len(platforms) == 1:
      return {'PLATFORM': common.Config.macos_versions[next(iter(platforms))]}
    else:
      # can't happen if Config.macos_versions has <= 2 elements and should_run()
      # returned True
      raise Exception(
        'we can only build all platforms or a single platform, but got: ' +
        ', '.join(platforms)
      )
  \<close>
\<close>

definition BuildAndPublishMacOS_task_env :: "common \<Rightarrow> activity \<Rightarrow> error + string dict" where
  "BuildAndPublishMacOS_task_env c self =
     (case platforms_to_build c self of
        Inl e \<Rightarrow> Inl e
      | Inr ps \<Rightarrow>
          (if length ps = length (Config_macos_versions c) then Inr []
           else if length ps = 1
           then (case dict_get (Config_macos_versions c) (hd ps) of
                   Inl e \<Rightarrow> Inl e
                 | Inr v \<Rightarrow> Inr [(''PLATFORM'', v)])
           else Inl (Exception
                  (''we can only build all platforms or a single platform, but got: '' @
                   join '', '' ps))))"

definition task_env :: "common \<Rightarrow> activity \<Rightarrow> error + string dict" where
  "task_env c self =
     (case cls self of
        PublishBinaryPackages \<Rightarrow> Inr [(''REPOS_ONLY'', ''1'')]
      | PublishDockerImages \<Rightarrow> Inr [(''DOCKER_ONLY'', ''1'')]
      | BuildAndPublishMacOS \<Rightarrow> BuildAndPublishMacOS_task_env c self
      | _ \<Rightarrow> Inr [])"

section \<open>Sample inputs\<close>

text \<open>
  Concrete events, a concrete stand-in for \<open>common\<close> and concrete answers of the services,
  on which the definitions above can be evaluated. They fix nothing about the real
  \<open>common\<close> module: every property below is stated for an arbitrary one.
\<close>

definition sample_event :: "string \<Rightarrow> string list \<Rightarrow> event" where
  "sample_event v ps =
     \<lparr>event_version = Some v, event_platform = Some ''ubuntu-18.04-bionic'',
      event_buildInput = Some \<lparr>platforms = Some ps\<rparr>, event_rest = []\<rparr>"

definition fake_sample_event :: event where
  "fake_sample_event = (sample_event ''4.0.0'' [])\<lparr>event_rest := [(''fake_ec2'', ''1'')]\<rparr>"

definition sample_common :: common where
  "sample_common =
     \<lparr>common_fake_ec2 = (\<lambda>ev. map_of (event_rest ev) ''fake_ec2'' = Some ''1''),
      common_url = (\<lambda>path. ''https://example.org/'' @ path),
      common_format_env = (\<lambda>env. concat (map (\<lambda>(k, v). k @ ''='' @ v @ '';'') env)),
      common_fetch = (\<lambda>path. ''# '' @ path),
      common_env_for_version =
        (\<lambda>v. [(''S3_BUCKET'', ''hhvm-downloads''),
              (''S3_PATH'', ''source/hhvm-'' @ v @ ''.tar.gz'')]),
      common_build_status =
        (\<lambda>v p. if p = ''ubuntu-18.04-bionic'' then ''not_built'' else ''succeeded''),
      common_build_statuses =
        (\<lambda>v. [(''source'', ''not_built''), (''ubuntu-18.04-bionic'', ''built_not_published''),
              (''macos-high_sierra'', ''succeeded''), (''macos-mojave'', ''not_built''),
              (''macos-catalina'', ''not_built'')]),
      common_is_linux = (\<lambda>p. take 6 p = ''ubuntu''),
      common_is_nightly = (\<lambda>v. take 8 v = ''nightly-''),
      Config_macos_versions =
        [(''macos-high_sierra'', ''10.13''), (''macos-mojave'', ''10.14'')]\<rparr>"

text \<open>The same with three macOS versions configured.\<close>

definition sample_common3 :: common where
  "sample_common3 =
     sample_common\<lparr>Config_macos_versions :=
        [(''macos-high_sierra'', ''10.13''), (''macos-mojave'', ''10.14''),
         (''macos-catalina'', ''10.15'')]\<rparr>"

definition sample_services :: services where
  "sample_services =
     \<lparr>ec2_instances =
        [\<lparr>instance_state_name = ''terminated'',
          instance_tags = [(''ActivityArn'',
            ''arn:aws:states:us-west-2:223121549624:activity:hhvm-publish-binary-packages'')]\<rparr>,
         \<lparr>instance_state_name = ''running'',
          instance_tags = [(''ActivityArn'',
            ''arn:aws:states:us-west-2:223121549624:activity:hhvm-make-binary-package'')]\<rparr>],
      s3_list_objects =
        (\<lambda>bucket prefix. if prefix = ''source/hhvm-4.0.0.tar.gz''
           then Some [\<lparr>Key = ''source/hhvm-4.0.0.tar.gz''\<rparr>,
                      \<lparr>Key = ''source/hhvm-4.0.0.tar.gz.sig''\<rparr>]
           else None),
      urlopen_json =
        (\<lambda>url. if url = ''https://index.docker.io/v1/repositories/hhvm/hhvm/tags''
           then [\<lparr>tag_name = ''latest''\<rparr>, \<lparr>tag_name = ''4.0.0''\<rparr>]
           else [\<lparr>tag_name = ''latest''\<rparr>])\<rparr>"

text \<open>The same with a pending worker of \<open>PublishBinaryPackages\<close>.\<close>

definition busy_services :: services where
  "busy_services =
     sample_services\<lparr>ec2_instances :=
        [\<lparr>instance_state_name = ''pending'',
          instance_tags = [(''Name'', ''ww-0-PublishBinaryPackages''), (''ActivityArn'',
            ''arn:aws:states:us-west-2:223121549624:activity:hhvm-publish-binary-packages'')]\<rparr>]\<rparr>"

section \<open>Auxiliary facts\<close>

lemma map_of_dict_set: "map_of (dict_set d k v) = (map_of d)(k \<mapsto> v)"
  by (induction d) auto

lemma dict_get_set_other:
  "k \<noteq> k' \<Longrightarrow> dict_get (dict_set d k' v) k = dict_get d k"
  by (simp add: dict_get_def map_of_dict_set)

lemma truthy_Some: "truthy s \<longleftrightarrow> (\<exists>t. s = Some t \<and> t \<noteq> [])"
  by (cases s) (auto simp: truthy_def)

text \<open>What \<open>platforms_to_build\<close> returns is a set of keys of \<open>Config.macos_versions\<close>.\<close>

lemma platforms_to_build_keys:
  assumes "platforms_to_build c self = Inr ps"
  shows "distinct ps \<and> set ps \<subseteq> set (dict_keys (Config_macos_versions c))"
  using assms
  by (auto simp: platforms_to_build_def Let_def split: sum.splits if_splits)

lemma platforms_to_build_length:
  assumes "platforms_to_build c self = Inr ps"
  shows "length ps \<le> length (Config_macos_versions c)"
proof -
  from platforms_to_build_keys [OF assms]
  have d: "distinct ps" and sub: "set ps \<subseteq> set (dict_keys (Config_macos_versions c))"
    by simp_all
  have "length ps = card (set ps)"
    using d by (simp add: distinct_card)
  also have "\<dots> \<le> card (set (dict_keys (Config_macos_versions c)))"
    using sub by (simp add: card_mono)
  also have "\<dots> \<le> length (dict_keys (Config_macos_versions c))"
    by (rule card_length)
  finally show ?thesis by (simp add: dict_keys_def)
qed

text \<open>So the lookup of the single platform in \<open>Config.macos_versions\<close> finds its key.\<close>

lemma single_platform_lookup:
  assumes "platforms_to_build c self = Inr ps" and "length ps = 1"
  shows "\<exists>v. dict_get (Config_macos_versions c) (hd ps) = Inr v"
proof -
  from assms(2) obtain p where ps: "ps = [p]"
    by (cases ps) auto
  with platforms_to_build_keys [OF assms(1)]
  have "p \<in> fst ` set (Config_macos_versions c)"
    by (simp add: dict_keys_def)
  then obtain v where "map_of (Config_macos_versions c) p = Some v"
    by (metis map_of_eq_None_iff not_Some_eq)
  then show ?thesis
    by (simp add: dict_get_def ps)
qed

lemma Activity_ec2_params_raises:
  "(\<exists>e. Activity_ec2_params c a wenv fake = Inl e) \<longleftrightarrow>
   (\<not> truthy (ec2_iam_arn a) \<or> \<not> truthy (activity_arn a) \<or> \<not> truthy (script_name a))"
  by (auto simp: Activity_ec2_params_def script_path_def Let_def truthy_Some split: sum.splits)

lemma ec2_params_raises:
  "(\<exists>e. ec2_params c self = Inl e) \<longleftrightarrow> (\<exists>e. super_ec2_params c self = Inl e)"
  by (cases "super_ec2_params c self")
     (auto simp: ec2_params_def MakeSourceTarball_ec2_params_def MakeBinaryPackage_ec2_params_def
        PublishBinaryPackages_ec2_params_def split: activity_class.splits)

lemma concrete_subclasses_all:
  "distinct concrete_subclasses \<and> set concrete_subclasses = UNIV - {Activity}"
proof -
  have "k \<in> set concrete_subclasses \<longleftrightarrow> k \<noteq> Activity" for k
    by (cases k) (simp_all add: concrete_subclasses_def)
  then show ?thesis
    by (auto simp: concrete_subclasses_def)
qed

lemma concrete_attrs_truthy:
  "k \<noteq> Activity \<Longrightarrow>
   truthy (ec2_iam_arn (attrs k)) \<and> truthy (activity_arn (attrs k)) \<and>
   truthy (script_name (attrs k))"
  by (cases k) (simp_all add: truthy_def)

lemma concrete_ec2_params_returns:
  assumes "cls self \<noteq> Activity"
  shows "\<exists>params. ec2_params c self = Inr params"
proof -
  have "\<not> (\<exists>e. ec2_params c self = Inl e)"
    using concrete_attrs_truthy [OF assms]
    by (simp only: ec2_params_raises super_ec2_params_def Activity_ec2_params_raises) simp
  then show ?thesis
    by (cases "ec2_params c self") auto
qed

text \<open>An override changes no key but the ones it passes to \<open>update\<close>.\<close>

lemma ec2_params_preserves:
  assumes "ec2_params c self = Inr params"
    and "key \<notin> {''InstanceType'', ''BlockDeviceMappings'', ''Placement''}"
  shows "\<exists>base. super_ec2_params c self = Inr base \<and> dict_get params key = dict_get base key"
proof (cases "super_ec2_params c self")
  case (Inl e)
  with assms(1) show ?thesis
    by (cases "cls self")
       (simp_all add: ec2_params_def MakeSourceTarball_ec2_params_def
          MakeBinaryPackage_ec2_params_def PublishBinaryPackages_ec2_params_def)
next
  case (Inr base)
  with assms show ?thesis
    by (cases "cls self")
       (auto simp: ec2_params_def MakeSourceTarball_ec2_params_def
          MakeBinaryPackage_ec2_params_def PublishBinaryPackages_ec2_params_def
          dict_get_set_other)
qed

lemma Activity_ec2_params_fields:
  assumes "Activity_ec2_params c a wenv fake = Inr params"
  shows "\<exists>arn. activity_arn a = Some arn \<and>
           dict_get params ''MinCount'' = Inr (VInt 1) \<and>
           dict_get params ''MaxCount'' = Inr (VInt 1) \<and>
           dict_get params ''TagSpecifications'' = Inr (VList [VDict
             [(''ResourceType'', VStr ''instance''),
              (''Tags'', VList
                 [VDict [(''Key'', VStr ''Name''), (''Value'', VStr (''ww-0-'' @ cls_name a))],
                  VDict [(''Key'', VStr ''ActivityArn''), (''Value'', VStr arn)]])]])"
  using assms
  by (auto simp: Activity_ec2_params_def truthy_Some script_path_def dict_get_def attr_val_def
      split: if_splits sum.splits)

text \<open>The text of \<open>UserData\<close>, written out.\<close>

lemma Activity_ec2_params_user_data:
  assumes "Activity_ec2_params c a wenv fake = Inr params"
  shows "\<exists>arn sn. activity_arn a = Some arn \<and> script_name a = Some sn \<and>
           dict_get params ''UserData'' = Inr (VStr
             (''#!/bin/bash'' @ [CHR 0x0A] @
              ''        ACTIVITY_ARN='' @ [CHR 0x22] @ arn @ [CHR 0x22] @ [CHR 0x0A] @
              ''        SCRIPT_URL='' @ [CHR 0x22] @
                common_url c (if fake then ''aws/hhvm1/worker/dummy-task.sh''
                              else ''aws/userdata/'' @ sn) @ [CHR 0x22] @ [CHR 0x0A] @
              ''        INIT_URL='' @ [CHR 0x22] @
                (case init_script a of
                   None \<Rightarrow> []
                 | Some s \<Rightarrow> (if s = [] then [] else common_url c s)) @
                [CHR 0x22] @ [CHR 0x0A] @
              ''        '' @ common_format_env c wenv @ [CHR 0x0A] @
              ''        '' @ common_fetch c ''aws/hhvm1/worker/worker.sh'' @ [CHR 0x0A] @
              ''      ''))"
  using assms
  by (auto simp: Activity_ec2_params_def truthy_Some script_path_def dict_get_def format_attr_def
      user_data_def split: if_splits sum.splits)

lemma has_ec2_workers_iff:
  assumes "activity_arn (attrs (cls self)) = Some arn"
  shows "has_ec2_workers w self =
           Inr (\<exists>i \<in> set (ec2_instances w).
                  instance_state_name i \<in> {''pending'', ''running''} \<and>
                  map_of (instance_tags i) ''ActivityArn'' = Some arn)"
  using assms
  by (auto simp: has_ec2_workers_def instances_filter_def matches_filter_def filter_empty_conv
      split: option.splits)

section \<open>Properties\<close>

text \<open>
  C1. For every status mapping, \<open>any_unpublished\<close> raises an exception if and only if some
  value of the mapping equals \<open>not_built\<close>; when no value is \<open>not_built\<close>, it returns
  \<open>True\<close> if and only if some value of the mapping equals \<open>built_not_published\<close>.
\<close>

theorem any_unpublished_raises_iff:
  "((\<exists>e. any_unpublished statuses = Inl e) \<longleftrightarrow> ''not_built'' \<in> set (dict_values statuses)) \<and>
   (''not_built'' \<notin> set (dict_values statuses) \<longrightarrow>
      (\<exists>b. any_unpublished statuses = Inr b \<and>
           (b \<longleftrightarrow> ''built_not_published'' \<in> set (dict_values statuses))))"
  by (auto simp: any_unpublished_def list_ex_iff)

theorem any_unpublished_raises_iff_witness:
  "(\<exists>e. any_unpublished [(''ubuntu'', ''not_built''), (''debian'', ''succeeded'')] = Inl e) \<and>
   any_unpublished [(''ubuntu'', ''built_not_published''), (''debian'', ''succeeded'')] = Inr True \<and>
   any_unpublished [(''ubuntu'', ''succeeded''), (''debian'', ''succeeded'')] = Inr False"
  using any_unpublished_raises_iff [of "[(''ubuntu'', ''not_built''), (''debian'', ''succeeded'')]"]
    any_unpublished_raises_iff [of "[(''ubuntu'', ''built_not_published''), (''debian'', ''succeeded'')]"]
    any_unpublished_raises_iff [of "[(''ubuntu'', ''succeeded''), (''debian'', ''succeeded'')]"]
  by (auto simp: dict_values_def)

text \<open>
  C2. \<open>BuildAndPublishMacOS.task_env\<close> raises an exception if and only if the set returned
  by \<open>platforms_to_build()\<close> has a size that is neither equal to the number of entries in
  \<open>Config.macos_versions\<close> nor equal to 1; in particular, when \<open>should_run()\<close> returned
  \<open>True\<close> and \<open>Config.macos_versions\<close> has at most 2 entries, \<open>task_env\<close> does not raise.
\<close>

theorem macos_task_env_raises_iff:
  assumes "cls self = BuildAndPublishMacOS"
  shows "(\<forall>ps. platforms_to_build c self = Inr ps \<longrightarrow>
            ((\<exists>e. task_env c self = Inl e) \<longleftrightarrow>
             (length ps \<noteq> length (Config_macos_versions c) \<and> length ps \<noteq> 1))) \<and>
         (should_run c w self = Inr True \<and> length (Config_macos_versions c) \<le> 2 \<longrightarrow>
            (\<exists>env. task_env c self = Inr env))"
proof (intro conjI allI impI)
  fix ps
  assume p: "platforms_to_build c self = Inr ps"
  show "(\<exists>e. task_env c self = Inl e) \<longleftrightarrow>
        (length ps \<noteq> length (Config_macos_versions c) \<and> length ps \<noteq> 1)"
  proof (cases "length ps = 1 \<and> length ps \<noteq> length (Config_macos_versions c)")
    case True
    with single_platform_lookup [OF p] obtain v
      where "dict_get (Config_macos_versions c) (hd ps) = Inr v" by auto
    with True p assms show ?thesis
      by (simp add: task_env_def BuildAndPublishMacOS_task_env_def)
  next
    case False
    with p assms show ?thesis
      by (auto simp: task_env_def BuildAndPublishMacOS_task_env_def)
  qed
next
  assume a: "should_run c w self = Inr True \<and> length (Config_macos_versions c) \<le> 2"
  with assms obtain ps where p: "platforms_to_build c self = Inr ps" and ne: "ps \<noteq> []"
    by (auto simp: should_run_def BuildAndPublishMacOS_should_run_def split: sum.splits)
  from ne have "1 \<le> length ps" by (cases ps) auto
  moreover note platforms_to_build_length [OF p]
  ultimately have "length ps = length (Config_macos_versions c) \<or> length ps = 1"
    using a by arith
  then show "\<exists>env. task_env c self = Inr env"
  proof
    assume "length ps = length (Config_macos_versions c)"
    with p assms show ?thesis
      by (simp add: task_env_def BuildAndPublishMacOS_task_env_def)
  next
    assume l: "length ps = 1"
    with single_platform_lookup [OF p] obtain v
      where "dict_get (Config_macos_versions c) (hd ps) = Inr v" by auto
    with l p assms show ?thesis
      by (simp add: task_env_def BuildAndPublishMacOS_task_env_def)
  qed
qed

text \<open>
  With two versions configured and one of them unbuilt, \<open>should_run\<close> is true and
  \<open>task_env\<close> returns; with three configured and two unbuilt, \<open>task_env\<close> raises.
\<close>

theorem macos_task_env_raises_iff_witness:
  "cls (init sample_common BuildAndPublishMacOS (sample_event ''4.0.0'' [])) =
     BuildAndPublishMacOS \<and>
   should_run sample_common sample_services
     (init sample_common BuildAndPublishMacOS (sample_event ''4.0.0'' [])) = Inr True \<and>
   length (Config_macos_versions sample_common) \<le> 2 \<and>
   (\<exists>env. task_env sample_common
      (init sample_common BuildAndPublishMacOS (sample_event ''4.0.0'' [])) = Inr env) \<and>
   platforms_to_build sample_common3
     (init sample_common BuildAndPublishMacOS (sample_event ''4.0.0'' [])) =
     Inr [''macos-mojave'', ''macos-catalina''] \<and>
   (\<exists>e. task_env sample_common3
      (init sample_common BuildAndPublishMacOS (sample_event ''4.0.0'' [])) = Inl e)"
proof -
  let ?self = "init sample_common BuildAndPublishMacOS (sample_event ''4.0.0'' [])"
  have k: "cls ?self = BuildAndPublishMacOS"
    by (simp add: init_def)
  have r: "should_run sample_common sample_services ?self = Inr True"
    by (simp add: should_run_def BuildAndPublishMacOS_should_run_def platforms_to_build_def
        event_platforms_def version_def init_def sample_event_def sample_common_def
        dict_keys_def)
  have l: "length (Config_macos_versions sample_common) \<le> 2"
    by (simp add: sample_common_def)
  have p: "platforms_to_build sample_common3 ?self = Inr [''macos-mojave'', ''macos-catalina'']"
    by (simp add: platforms_to_build_def event_platforms_def version_def init_def
        sample_event_def sample_common_def sample_common3_def dict_keys_def)
  have l3: "length (Config_macos_versions sample_common3) = 3"
    by (simp add: sample_common3_def)
  from macos_task_env_raises_iff [OF k, of sample_common sample_services] r l
  have "\<exists>env. task_env sample_common ?self = Inr env"
    by blast
  moreover
  from macos_task_env_raises_iff [OF k, of sample_common3 sample_services] p l3
  have "\<exists>e. task_env sample_common3 ?self = Inl e"
    by simp
  ultimately show ?thesis
    using k r l p by blast
qed

text \<open>
  C3, as the code has it. For every \<open>Activity\<close> instance, \<open>ec2_params\<close> raises an
  exception if and only if at least one of the class attributes \<open>ec2_iam_arn\<close>,
  \<open>activity_arn\<close>, \<open>script_name\<close> is missing (falsy); each of the six concrete subclasses
  sets all three, so for them this error branch is never taken. The first conjunct is
  about the method of the base class on the attributes of any class, the second about
  method lookup on the classes of the module.
\<close>

theorem ec2_params_missing_config:
  "((\<exists>e. Activity_ec2_params c a wenv fake = Inl e) \<longleftrightarrow>
      (\<not> truthy (ec2_iam_arn a) \<or> \<not> truthy (activity_arn a) \<or> \<not> truthy (script_name a))) \<and>
   ((\<exists>e. ec2_params c self = Inl e) \<longleftrightarrow>
      (\<not> truthy (ec2_iam_arn (attrs (cls self))) \<or>
       \<not> truthy (activity_arn (attrs (cls self))) \<or>
       \<not> truthy (script_name (attrs (cls self))))) \<and>
   length concrete_subclasses = 6 \<and> distinct concrete_subclasses \<and>
   set concrete_subclasses = UNIV - {Activity} \<and>
   (\<forall>k \<in> set concrete_subclasses.
      truthy (ec2_iam_arn (attrs k)) \<and> truthy (activity_arn (attrs k)) \<and>
      truthy (script_name (attrs k)) \<and>
      (\<forall>ev. \<exists>params. ec2_params c (init c k ev) = Inr params))"
proof (intro conjI ballI)
  show "(\<exists>e. Activity_ec2_params c a wenv fake = Inl e) \<longleftrightarrow>
      (\<not> truthy (ec2_iam_arn a) \<or> \<not> truthy (activity_arn a) \<or> \<not> truthy (script_name a))"
    by (rule Activity_ec2_params_raises)
  show "(\<exists>e. ec2_params c self = Inl e) \<longleftrightarrow>
      (\<not> truthy (ec2_iam_arn (attrs (cls self))) \<or>
       \<not> truthy (activity_arn (attrs (cls self))) \<or>
       \<not> truthy (script_name (attrs (cls self))))"
    by (simp only: ec2_params_raises super_ec2_params_def Activity_ec2_params_raises)
  show "length concrete_subclasses = 6"
    by (simp add: concrete_subclasses_def)
  show "distinct concrete_subclasses" "set concrete_subclasses = UNIV - {Activity}"
    using concrete_subclasses_all by simp_all
  fix k assume "k \<in> set concrete_subclasses"
  then have k: "k \<noteq> Activity"
    using concrete_subclasses_all by simp
  from concrete_attrs_truthy [OF k]
  show "truthy (ec2_iam_arn (attrs k))" "truthy (activity_arn (attrs k))"
    "truthy (script_name (attrs k))"
    by simp_all
  show "\<forall>ev. \<exists>params. ec2_params c (init c k ev) = Inr params"
  proof
    fix ev
    from k have "cls (init c k ev) \<noteq> Activity"
      by (simp add: init_def)
    then show "\<exists>params. ec2_params c (init c k ev) = Inr params"
      by (rule concrete_ec2_params_returns)
  qed
qed

text \<open>
  An instance of the base class raises; an instance of \<open>BuildAndPublishMacOS\<close>, the sixth
  subclass, does not.
\<close>

theorem ec2_params_missing_config_witness:
  "(\<exists>e. ec2_params sample_common
          (init sample_common Activity (sample_event ''4.0.0'' [])) = Inl e) \<and>
   BuildAndPublishMacOS \<in> set concrete_subclasses \<and>
   (\<exists>params. ec2_params sample_common
          (init sample_common BuildAndPublishMacOS (sample_event ''4.0.0'' [])) = Inr params)"
  using ec2_params_missing_config [of sample_common "attrs Activity" "[]" False
      "init sample_common Activity (sample_event ''4.0.0'' [])"]
  by (auto simp: concrete_subclasses_def init_def truthy_def)

text \<open>
  C3 as the specification words it speaks of five concrete subclasses. The module defines
  six: \<open>MakeSourceTarball\<close>, \<open>MakeBinaryPackage\<close>, \<open>PublishBinaryPackages\<close>,
  \<open>PublishSourceTarball\<close>, \<open>PublishDockerImages\<close> and \<open>BuildAndPublishMacOS\<close>.
\<close>

theorem five_concrete_subclasses_counterexample:
  "\<not> length concrete_subclasses = 5"
  by (simp add: concrete_subclasses_def)

text \<open>
  C4. \<open>MakeBinaryPackage.should_run\<close> returns \<open>True\<close> if and only if the queried build
  status for the event's version and platform equals \<open>not_built\<close>; for any other status
  it returns \<open>False\<close> and the step is a no-op.
\<close>

theorem MakeBinaryPackage_should_run_iff:
  assumes "cls self = MakeBinaryPackage"
    and "event_version (event self) = Some v"
    and "event_platform (event self) = Some p"
  shows "should_run c w self = Inr (common_build_status c v p = ''not_built'')"
  using assms
  by (simp add: should_run_def MakeBinaryPackage_should_run_def version_def platform_def)

theorem MakeBinaryPackage_should_run_iff_witness:
  "should_run sample_common sample_services
     (init sample_common MakeBinaryPackage (sample_event ''4.0.0'' [])) = Inr True \<and>
   should_run (sample_common\<lparr>common_build_status := \<lambda>v p. ''built_not_published''\<rparr>)
     sample_services
     (init sample_common MakeBinaryPackage (sample_event ''4.0.0'' [])) = Inr False"
proof -
  let ?self = "init sample_common MakeBinaryPackage (sample_event ''4.0.0'' [])"
  have k: "cls ?self = MakeBinaryPackage"
    and v: "event_version (event ?self) = Some ''4.0.0''"
    and p: "event_platform (event ?self) = Some ''ubuntu-18.04-bionic''"
    by (simp_all add: init_def sample_event_def)
  show ?thesis
    using MakeBinaryPackage_should_run_iff [OF k v p, of sample_common sample_services]
      MakeBinaryPackage_should_run_iff [OF k v p,
        of "sample_common\<lparr>common_build_status := \<lambda>v p. ''built_not_published''\<rparr>"
          sample_services]
    by (simp add: sample_common_def)
qed

text \<open>
  C5. \<open>MakeSourceTarball.should_run\<close> returns \<open>True\<close> if and only if no object returned
  by listing the configured S3 bucket under the configured prefix has a \<open>Key\<close> exactly
  equal to the configured \<open>S3_PATH\<close>; the step is a no-op exactly when the marker object
  already exists. An answer without \<open>Contents\<close> lists no object.
\<close>

theorem MakeSourceTarball_should_run_iff:
  assumes "cls self = MakeSourceTarball"
    and "event_version (event self) = Some v"
    and "dict_get (common_env_for_version c v) ''S3_BUCKET'' = Inr bucket"
    and "dict_get (common_env_for_version c v) ''S3_PATH'' = Inr path"
  shows "should_run c w self =
           Inr (\<not> (\<exists>obj \<in> set (case s3_list_objects w bucket path of
                                    None \<Rightarrow> [] | Some objs \<Rightarrow> objs). Key obj = path))"
  using assms
  by (cases "s3_list_objects w bucket path")
     (simp_all add: should_run_def MakeSourceTarball_should_run_def version_def list_ex_iff)

theorem MakeSourceTarball_should_run_iff_witness:
  "should_run sample_common sample_services
     (init sample_common MakeSourceTarball (sample_event ''4.0.0'' [])) = Inr False \<and>
   should_run sample_common sample_services
     (init sample_common MakeSourceTarball (sample_event ''4.0.1'' [])) = Inr True"
proof -
  let ?a = "init sample_common MakeSourceTarball (sample_event ''4.0.0'' [])"
  let ?b = "init sample_common MakeSourceTarball (sample_event ''4.0.1'' [])"
  have ka: "cls ?a = MakeSourceTarball" and kb: "cls ?b = MakeSourceTarball"
    and va: "event_version (event ?a) = Some ''4.0.0''"
    and vb: "event_version (event ?b) = Some ''4.0.1''"
    by (simp_all add: init_def sample_event_def)
  have ba: "dict_get (common_env_for_version sample_common ''4.0.0'') ''S3_BUCKET'' =
              Inr ''hhvm-downloads''"
    and pa: "dict_get (common_env_for_version sample_common ''4.0.0'') ''S3_PATH'' =
              Inr ''source/hhvm-4.0.0.tar.gz''"
    and bb: "dict_get (common_env_for_version sample_common ''4.0.1'') ''S3_BUCKET'' =
              Inr ''hhvm-downloads''"
    and pb: "dict_get (common_env_for_version sample_common ''4.0.1'') ''S3_PATH'' =
              Inr ''source/hhvm-4.0.1.tar.gz''"
    by (simp_all add: sample_common_def dict_get_def)
  show ?thesis
    using MakeSourceTarball_should_run_iff [OF ka va ba pa, of sample_services]
      MakeSourceTarball_should_run_iff [OF kb vb bb pb, of sample_services]
    by (simp add: sample_services_def)
qed

text \<open>
  C6. \<open>PublishDockerImages.should_run\<close> returns \<open>True\<close> if and only if the event's version
  is absent from the set of tags of the \<open>hhvm\<close> registry repository or absent from the
  set of tags of the \<open>hhvm-proxygen\<close> registry repository; it returns \<open>False\<close> only when
  the version is present in both.
\<close>

theorem PublishDockerImages_should_run_iff:
  assumes "cls self = PublishDockerImages"
    and "event_version (event self) = Some v"
  shows "should_run c w self =
           Inr (v \<notin> tag_name ` set (urlopen_json w
                      ''https://index.docker.io/v1/repositories/hhvm/hhvm/tags'') \<or>
                v \<notin> tag_name ` set (urlopen_json w
                      ''https://index.docker.io/v1/repositories/hhvm/hhvm-proxygen/tags''))"
  using assms
  by (simp add: should_run_def PublishDockerImages_should_run_def version_def docker_tags_def)

theorem PublishDockerImages_should_run_iff_witness:
  "should_run sample_common sample_services
     (init sample_common PublishDockerImages (sample_event ''4.0.0'' [])) = Inr True \<and>
   should_run sample_common sample_services
     (init sample_common PublishDockerImages (sample_event ''latest'' [])) = Inr False"
proof -
  let ?a = "init sample_common PublishDockerImages (sample_event ''4.0.0'' [])"
  let ?b = "init sample_common PublishDockerImages (sample_event ''latest'' [])"
  have ka: "cls ?a = PublishDockerImages" and kb: "cls ?b = PublishDockerImages"
    and va: "event_version (event ?a) = Some ''4.0.0''"
    and vb: "event_version (event ?b) = Some ''latest''"
    by (simp_all add: init_def sample_event_def)
  show ?thesis
    using PublishDockerImages_should_run_iff [OF ka va, of sample_common sample_services]
      PublishDockerImages_should_run_iff [OF kb vb, of sample_common sample_services]
    by (simp add: sample_services_def)
qed

text \<open>
  C7. \<open>PublishBinaryPackages.needs_ec2_worker\<close> returns \<open>True\<close> if and only if no EC2
  instance in state \<open>pending\<close> or \<open>running\<close> carries the tag \<open>ActivityArn\<close> equal to the
  class's \<open>activity_arn\<close>; every other activity's \<open>needs_ec2_worker\<close> returns \<open>True\<close>
  unconditionally.
\<close>

theorem needs_ec2_worker_gate:
  "(cls self = PublishBinaryPackages \<longrightarrow>
      needs_ec2_worker w self =
        Inr (\<not> (\<exists>i \<in> set (ec2_instances w).
                   instance_state_name i \<in> {''pending'', ''running''} \<and>
                   map_of (instance_tags i) ''ActivityArn'' =
                     activity_arn (attrs PublishBinaryPackages)))) \<and>
   (cls self \<noteq> PublishBinaryPackages \<longrightarrow> needs_ec2_worker w self = Inr True)"
proof (intro conjI impI)
  assume k: "cls self = PublishBinaryPackages"
  then have "activity_arn (attrs (cls self)) =
      Some ''arn:aws:states:us-west-2:223121549624:activity:hhvm-publish-binary-packages''"
    by simp
  from has_ec2_workers_iff [OF this, of w] k
  show "needs_ec2_worker w self =
        Inr (\<not> (\<exists>i \<in> set (ec2_instances w).
                   instance_state_name i \<in> {''pending'', ''running''} \<and>
                   map_of (instance_tags i) ''ActivityArn'' =
                     activity_arn (attrs PublishBinaryPackages)))"
    by (simp add: needs_ec2_worker_def)
next
  assume "cls self \<noteq> PublishBinaryPackages"
  then show "needs_ec2_worker w self = Inr True"
    by (simp add: needs_ec2_worker_def)
qed

text \<open>
  A terminated worker of the class and a running worker of another class do not close
  the gate; a pending worker of the class does, and only for this class.
\<close>

theorem needs_ec2_worker_gate_witness:
  "needs_ec2_worker sample_services
     (init sample_common PublishBinaryPackages (sample_event ''4.0.0'' [])) = Inr True \<and>
   needs_ec2_worker busy_services
     (init sample_common PublishBinaryPackages (sample_event ''4.0.0'' [])) = Inr False \<and>
   needs_ec2_worker busy_services
     (init sample_common PublishDockerImages (sample_event ''4.0.0'' [])) = Inr True"
  using needs_ec2_worker_gate
      [of "init sample_common PublishBinaryPackages (sample_event ''4.0.0'' [])" sample_services]
    needs_ec2_worker_gate
      [of "init sample_common PublishBinaryPackages (sample_event ''4.0.0'' [])" busy_services]
    needs_ec2_worker_gate
      [of "init sample_common PublishDockerImages (sample_event ''4.0.0'' [])" busy_services]
  by (simp add: init_def sample_services_def busy_services_def)

text \<open>
  C8. For every concrete \<open>Activity\<close> on which \<open>ec2_params\<close> does not raise, the returned
  launch configuration has \<open>MinCount\<close> equal to 1 and \<open>MaxCount\<close> equal to 1, and its
  \<open>TagSpecifications\<close> tag the instance with \<open>Key\<close> \<open>ActivityArn\<close> and \<open>Value\<close> equal to the
  class's \<open>activity_arn\<close>; every subclass override of \<open>ec2_params\<close> only adds or replaces
  other keys (\<open>InstanceType\<close>, \<open>BlockDeviceMappings\<close>, \<open>Placement\<close>) and preserves these
  fields. The first conjunct is about the method of the base class on the attributes of
  any class, the second about the method an instance of the module's classes runs.
\<close>

theorem ec2_params_one_tagged_instance:
  "(Activity_ec2_params c a wenv fake = Inr params \<longrightarrow>
      (\<exists>arn. activity_arn a = Some arn \<and>
         dict_get params ''MinCount'' = Inr (VInt 1) \<and>
         dict_get params ''MaxCount'' = Inr (VInt 1) \<and>
         dict_get params ''TagSpecifications'' = Inr (VList [VDict
           [(''ResourceType'', VStr ''instance''),
            (''Tags'', VList
               [VDict [(''Key'', VStr ''Name''), (''Value'', VStr (''ww-0-'' @ cls_name a))],
                VDict [(''Key'', VStr ''ActivityArn''), (''Value'', VStr arn)]])]]))) \<and>
   (ec2_params c self = Inr params' \<longrightarrow>
      (\<exists>arn. activity_arn (attrs (cls self)) = Some arn \<and>
         dict_get params' ''MinCount'' = Inr (VInt 1) \<and>
         dict_get params' ''MaxCount'' = Inr (VInt 1) \<and>
         dict_get params' ''TagSpecifications'' = Inr (VList [VDict
           [(''ResourceType'', VStr ''instance''),
            (''Tags'', VList
               [VDict [(''Key'', VStr ''Name''),
                       (''Value'', VStr (''ww-0-'' @ cls_name (attrs (cls self))))],
                VDict [(''Key'', VStr ''ActivityArn''), (''Value'', VStr arn)]])]])) \<and>
      (\<exists>base. super_ec2_params c self = Inr base \<and>
         (\<forall>key. key \<notin> {''InstanceType'', ''BlockDeviceMappings'', ''Placement''} \<longrightarrow>
            dict_get params' key = dict_get base key)))"
proof (intro conjI impI)
  assume "Activity_ec2_params c a wenv fake = Inr params"
  then show "\<exists>arn. activity_arn a = Some arn \<and>
         dict_get params ''MinCount'' = Inr (VInt 1) \<and>
         dict_get params ''MaxCount'' = Inr (VInt 1) \<and>
         dict_get params ''TagSpecifications'' = Inr (VList [VDict
           [(''ResourceType'', VStr ''instance''),
            (''Tags'', VList
               [VDict [(''Key'', VStr ''Name''), (''Value'', VStr (''ww-0-'' @ cls_name a))],
                VDict [(''Key'', VStr ''ActivityArn''), (''Value'', VStr arn)]])]])"
    by (rule Activity_ec2_params_fields)
next
  assume p: "ec2_params c self = Inr params'"
  from ec2_params_preserves [OF p, of "''MinCount''"]
  obtain base where b: "super_ec2_params c self = Inr base"
    and mn: "dict_get params' ''MinCount'' = dict_get base ''MinCount''"
    by auto
  from ec2_params_preserves [OF p, of "''MaxCount''"] b
  have mx: "dict_get params' ''MaxCount'' = dict_get base ''MaxCount''"
    by auto
  from ec2_params_preserves [OF p, of "''TagSpecifications''"] b
  have ts: "dict_get params' ''TagSpecifications'' = dict_get base ''TagSpecifications''"
    by auto
  from b have "Activity_ec2_params c (attrs (cls self)) (worker_env self) (fake_ec2 self) =
      Inr base"
    by (simp add: super_ec2_params_def)
  from Activity_ec2_params_fields [OF this] mn mx ts
  show "\<exists>arn. activity_arn (attrs (cls self)) = Some arn \<and>
         dict_get params' ''MinCount'' = Inr (VInt 1) \<and>
         dict_get params' ''MaxCount'' = Inr (VInt 1) \<and>
         dict_get params' ''TagSpecifications'' = Inr (VList [VDict
           [(''ResourceType'', VStr ''instance''),
            (''Tags'', VList
               [VDict [(''Key'', VStr ''Name''),
                       (''Value'', VStr (''ww-0-'' @ cls_name (attrs (cls self))))],
                VDict [(''Key'', VStr ''ActivityArn''), (''Value'', VStr arn)]])]])"
    by simp
  from ec2_params_preserves [OF p] b
  show "\<exists>base. super_ec2_params c self = Inr base \<and>
         (\<forall>key. key \<notin> {''InstanceType'', ''BlockDeviceMappings'', ''Placement''} \<longrightarrow>
            dict_get params' key = dict_get base key)"
    by auto
qed

text \<open>
  \<open>MakeBinaryPackage\<close> replaces \<open>InstanceType\<close> and keeps the counts and the tags.
\<close>

theorem ec2_params_one_tagged_instance_witness:
  "\<exists>params. ec2_params sample_common
       (init sample_common MakeBinaryPackage (sample_event ''4.0.0'' [])) = Inr params \<and>
     dict_get params ''MinCount'' = Inr (VInt 1) \<and>
     dict_get params ''MaxCount'' = Inr (VInt 1) \<and>
     dict_get params ''InstanceType'' = Inr (VStr ''m5.2xlarge'') \<and>
     dict_get params ''TagSpecifications'' = Inr (VList [VDict
       [(''ResourceType'', VStr ''instance''),
        (''Tags'', VList
           [VDict [(''Key'', VStr ''Name''), (''Value'', VStr ''ww-0-MakeBinaryPackage'')],
            VDict [(''Key'', VStr ''ActivityArn''),
                   (''Value'', VStr
                      ''arn:aws:states:us-west-2:223121549624:activity:hhvm-make-binary-package'')]])]])"
proof -
  let ?self = "init sample_common MakeBinaryPackage (sample_event ''4.0.0'' [])"
  obtain params where p: "ec2_params sample_common ?self = Inr params"
    using concrete_ec2_params_returns [of ?self sample_common] by (auto simp: init_def)
  have it: "dict_get params ''InstanceType'' = Inr (VStr ''m5.2xlarge'')"
    using p
    by (auto simp: ec2_params_def MakeBinaryPackage_ec2_params_def super_ec2_params_def
        Activity_ec2_params_def script_path_def truthy_def init_def dict_get_def
        sample_common_def sample_event_def)
  from ec2_params_one_tagged_instance
    [of sample_common "attrs MakeBinaryPackage" "[]" False params ?self params] p it
  show ?thesis
    by (auto simp: init_def)
qed

text \<open>
  C9. For every event whose version is nightly, \<open>PublishSourceTarball.should_run\<close> returns
  \<open>False\<close> without consulting build statuses or calling \<open>any_unpublished\<close>: whatever
  \<open>common.build_statuses\<close> would answer, the result is \<open>False\<close>, and it never raises, even
  when some package status is \<open>not_built\<close>.
\<close>

theorem PublishSourceTarball_nightly:
  assumes "cls self = PublishSourceTarball"
    and "event_version (event self) = Some v"
    and "common_is_nightly c v"
  shows "should_run (c\<lparr>common_build_statuses := statuses\<rparr>) w self = Inr False"
  using assms
  by (simp add: should_run_def PublishSourceTarball_should_run_def version_def)

text \<open>
  With the source tarball unbuilt, the nightly version gives \<open>False\<close> where the release
  version raises.
\<close>

theorem PublishSourceTarball_nightly_witness:
  "should_run (sample_common\<lparr>common_build_statuses := \<lambda>v. [(''source'', ''not_built'')]\<rparr>)
     sample_services
     (init sample_common PublishSourceTarball (sample_event ''nightly-2019.01.01'' [])) =
     Inr False \<and>
   (\<exists>e. should_run (sample_common\<lparr>common_build_statuses := \<lambda>v. [(''source'', ''not_built'')]\<rparr>)
     sample_services
     (init sample_common PublishSourceTarball (sample_event ''4.0.0'' [])) = Inl e)"
proof -
  let ?self = "init sample_common PublishSourceTarball (sample_event ''nightly-2019.01.01'' [])"
  have k: "cls ?self = PublishSourceTarball"
    and v: "event_version (event ?self) = Some ''nightly-2019.01.01''"
    by (simp_all add: init_def sample_event_def)
  have n: "common_is_nightly sample_common ''nightly-2019.01.01''"
    by (simp add: sample_common_def)
  have "\<exists>e. should_run
      (sample_common\<lparr>common_build_statuses := \<lambda>v. [(''source'', ''not_built'')]\<rparr>)
      sample_services
      (init sample_common PublishSourceTarball (sample_event ''4.0.0'' [])) = Inl e"
    by (simp add: should_run_def PublishSourceTarball_should_run_def version_def init_def
        sample_event_def sample_common_def any_unpublished_def dict_values_def)
  with PublishSourceTarball_nightly
    [OF k v n, of "\<lambda>v. [(''source'', ''not_built'')]" sample_services]
  show ?thesis by simp
qed

text \<open>
  C10. For every \<open>Activity\<close> whose event marks a fake EC2 run, the \<open>SCRIPT_URL\<close> embedded in
  the \<open>UserData\<close> returned by \<open>ec2_params\<close> is the URL of \<open>aws/hhvm1/worker/dummy-task.sh\<close>,
  regardless of the subclass's \<open>script_name\<close>; otherwise it is the URL of \<open>aws/userdata/\<close>
  followed by \<open>script_name\<close>. The text of \<open>UserData\<close> is written out: its third line is
  \<open>SCRIPT_URL=\<close> followed by that URL between double quotes. The first conjunct is about
  the method of the base class on the attributes of any class, the second about the method
  an instance built by \<open>__init__\<close> from an event runs.
\<close>

theorem ec2_params_script_url:
  "(Activity_ec2_params c a wenv fake = Inr params \<longrightarrow>
      (\<exists>arn sn. activity_arn a = Some arn \<and> script_name a = Some sn \<and>
         dict_get params ''UserData'' = Inr (VStr
           (''#!/bin/bash'' @ [CHR 0x0A] @
            ''        ACTIVITY_ARN='' @ [CHR 0x22] @ arn @ [CHR 0x22] @ [CHR 0x0A] @
            ''        SCRIPT_URL='' @ [CHR 0x22] @
              common_url c (if fake then ''aws/hhvm1/worker/dummy-task.sh''
                            else ''aws/userdata/'' @ sn) @ [CHR 0x22] @ [CHR 0x0A] @
            ''        INIT_URL='' @ [CHR 0x22] @
              (case init_script a of
                 None \<Rightarrow> []
               | Some s \<Rightarrow> (if s = [] then [] else common_url c s)) @
              [CHR 0x22] @ [CHR 0x0A] @
            ''        '' @ common_format_env c wenv @ [CHR 0x0A] @
            ''        '' @ common_fetch c ''aws/hhvm1/worker/worker.sh'' @ [CHR 0x0A] @
            ''      '')))) \<and>
   (ec2_params c (init c k ev) = Inr params' \<longrightarrow>
      (\<exists>arn sn. activity_arn (attrs k) = Some arn \<and> script_name (attrs k) = Some sn \<and>
         dict_get params' ''UserData'' = Inr (VStr
           (''#!/bin/bash'' @ [CHR 0x0A] @
            ''        ACTIVITY_ARN='' @ [CHR 0x22] @ arn @ [CHR 0x22] @ [CHR 0x0A] @
            ''        SCRIPT_URL='' @ [CHR 0x22] @
              common_url c (if common_fake_ec2 c ev then ''aws/hhvm1/worker/dummy-task.sh''
                            else ''aws/userdata/'' @ sn) @ [CHR 0x22] @ [CHR 0x0A] @
            ''        INIT_URL='' @ [CHR 0x22] @
              (case init_script (attrs k) of
                 None \<Rightarrow> []
               | Some s \<Rightarrow> (if s = [] then [] else common_url c s)) @
              [CHR 0x22] @ [CHR 0x0A] @
            ''        '' @ common_format_env c (worker_env (init c k ev)) @ [CHR 0x0A] @
            ''        '' @ common_fetch c ''aws/hhvm1/worker/worker.sh'' @ [CHR 0x0A] @
            ''      ''))))"
proof (intro conjI impI)
  assume "Activity_ec2_params c a wenv fake = Inr params"
  then show "\<exists>arn sn. activity_arn a = Some arn \<and> script_name a = Some sn \<and>
         dict_get params ''UserData'' = Inr (VStr
           (''#!/bin/bash'' @ [CHR 0x0A] @
            ''        ACTIVITY_ARN='' @ [CHR 0x22] @ arn @ [CHR 0x22] @ [CHR 0x0A] @
            ''        SCRIPT_URL='' @ [CHR 0x22] @
              common_url c (if fake then ''aws/hhvm1/worker/dummy-task.sh''
                            else ''aws/userdata/'' @ sn) @ [CHR 0x22] @ [CHR 0x0A] @
            ''        INIT_URL='' @ [CHR 0x22] @
              (case init_script a of
                 None \<Rightarrow> []
               | Some s \<Rightarrow> (if s = [] then [] else common_url c s)) @
              [CHR 0x22] @ [CHR 0x0A] @
            ''        '' @ common_format_env c wenv @ [CHR 0x0A] @
            ''        '' @ common_fetch c ''aws/hhvm1/worker/worker.sh'' @ [CHR 0x0A] @
            ''      ''))"
    by (rule Activity_ec2_params_user_data)
next
  let ?self = "init c k ev"
  assume p: "ec2_params c ?self = Inr params'"
  from ec2_params_preserves [OF p, of "''UserData''"]
  obtain base where b: "super_ec2_params c ?self = Inr base"
    and ud: "dict_get params' ''UserData'' = dict_get base ''UserData''"
    by auto
  from b have "Activity_ec2_params c (attrs k) (worker_env ?self) (common_fake_ec2 c ev) =
      Inr base"
    by (simp add: super_ec2_params_def init_def)
  from Activity_ec2_params_user_data [OF this]
  show "\<exists>arn sn. activity_arn (attrs k) = Some arn \<and> script_name (attrs k) = Some sn \<and>
         dict_get params' ''UserData'' = Inr (VStr
           (''#!/bin/bash'' @ [CHR 0x0A] @
            ''        ACTIVITY_ARN='' @ [CHR 0x22] @ arn @ [CHR 0x22] @ [CHR 0x0A] @
            ''        SCRIPT_URL='' @ [CHR 0x22] @
              common_url c (if common_fake_ec2 c ev then ''aws/hhvm1/worker/dummy-task.sh''
                            else ''aws/userdata/'' @ sn) @ [CHR 0x22] @ [CHR 0x0A] @
            ''        INIT_URL='' @ [CHR 0x22] @
              (case init_script (attrs k) of
                 None \<Rightarrow> []
               | Some s \<Rightarrow> (if s = [] then [] else common_url c s)) @
              [CHR 0x22] @ [CHR 0x0A] @
            ''        '' @ common_format_env c (worker_env ?self) @ [CHR 0x0A] @
            ''        '' @ common_fetch c ''aws/hhvm1/worker/worker.sh'' @ [CHR 0x0A] @
            ''      ''))"
    unfolding ud .
qed

text \<open>
  \<open>PublishSourceTarball\<close> on a fake run and on a real one: the same text but for the line
  of \<open>SCRIPT_URL\<close>, which names the dummy task in the first and
  \<open>publish-release-source.sh\<close> in the second.
\<close>

theorem ec2_params_script_url_witness:
  "(\<exists>params.
      ec2_params sample_common (init sample_common PublishSourceTarball fake_sample_event) =
        Inr params \<and>
      dict_get params ''UserData'' = Inr (VStr
        (''#!/bin/bash'' @ [CHR 0x0A] @
         ''        ACTIVITY_ARN='' @ [CHR 0x22] @
           ''arn:aws:states:us-west-2:223121549624:activity:hhvm-publish-source-tarball'' @
           [CHR 0x22] @ [CHR 0x0A] @
         ''        SCRIPT_URL='' @ [CHR 0x22] @
           ''https://example.org/aws/hhvm1/worker/dummy-task.sh'' @ [CHR 0x22] @ [CHR 0x0A] @
         ''        INIT_URL='' @ [CHR 0x22] @ [CHR 0x22] @ [CHR 0x0A] @
         ''        '' @ [CHR 0x0A] @
         ''        # aws/hhvm1/worker/worker.sh'' @ [CHR 0x0A] @
         ''      ''))) \<and>
   (\<exists>params.
      ec2_params sample_common
        (init sample_common PublishSourceTarball (sample_event ''4.0.0'' [])) = Inr params \<and>
      dict_get params ''UserData'' = Inr (VStr
        (''#!/bin/bash'' @ [CHR 0x0A] @
         ''        ACTIVITY_ARN='' @ [CHR 0x22] @
           ''arn:aws:states:us-west-2:223121549624:activity:hhvm-publish-source-tarball'' @
           [CHR 0x22] @ [CHR 0x0A] @
         ''        SCRIPT_URL='' @ [CHR 0x22] @
           ''https://example.org/aws/userdata/publish-release-source.sh'' @
           [CHR 0x22] @ [CHR 0x0A] @
         ''        INIT_URL='' @ [CHR 0x22] @ [CHR 0x22] @ [CHR 0x0A] @
         ''        '' @ [CHR 0x0A] @
         ''        # aws/hhvm1/worker/worker.sh'' @ [CHR 0x0A] @
         ''      '')))"
proof -
  let ?f = "init sample_common PublishSourceTarball fake_sample_event"
  let ?r = "init sample_common PublishSourceTarball (sample_event ''4.0.0'' [])"
  have ff: "common_fake_ec2 sample_common fake_sample_event"
    and fr: "\<not> common_fake_ec2 sample_common (sample_event ''4.0.0'' [])"
    by (simp_all add: sample_common_def fake_sample_event_def sample_event_def)
  have u: "common_url sample_common path = ''https://example.org/'' @ path"
    and e: "common_format_env sample_common [] = []"
    and w: "common_fetch sample_common path = ''# '' @ path" for path
    by (simp_all add: sample_common_def)
  obtain fake_params where pf: "ec2_params sample_common ?f = Inr fake_params"
    using concrete_ec2_params_returns [of ?f sample_common] by (auto simp: init_def)
  obtain params where pr: "ec2_params sample_common ?r = Inr params"
    using concrete_ec2_params_returns [of ?r sample_common] by (auto simp: init_def)
  from ec2_params_script_url [of sample_common "attrs PublishSourceTarball" "[]" True "[]"
      PublishSourceTarball fake_sample_event fake_params] pf ff
  have "dict_get fake_params ''UserData'' = Inr (VStr
        (''#!/bin/bash'' @ [CHR 0x0A] @
         ''        ACTIVITY_ARN='' @ [CHR 0x22] @
           ''arn:aws:states:us-west-2:223121549624:activity:hhvm-publish-source-tarball'' @
           [CHR 0x22] @ [CHR 0x0A] @
         ''        SCRIPT_URL='' @ [CHR 0x22] @
           ''https://example.org/aws/hhvm1/worker/dummy-task.sh'' @ [CHR 0x22] @ [CHR 0x0A] @
         ''        INIT_URL='' @ [CHR 0x22] @ [CHR 0x22] @ [CHR 0x0A] @
         ''        '' @ [CHR 0x0A] @
         ''        # aws/hhvm1/worker/worker.sh'' @ [CHR 0x0A] @
         ''      ''))"
    by (auto simp: u e w worker_env_def init_def)
  moreover
  from ec2_params_script_url [of sample_common "attrs PublishSourceTarball" "[]" True "[]"
      PublishSourceTarball "sample_event ''4.0.0'' []" params] pr fr
  have "dict_get params ''UserData'' = Inr (VStr
        (''#!/bin/bash'' @ [CHR 0x0A] @
         ''        ACTIVITY_ARN='' @ [CHR 0x22] @
           ''arn:aws:states:us-west-2:223121549624:activity:hhvm-publish-source-tarball'' @
           [CHR 0x22] @ [CHR 0x0A] @
         ''        SCRIPT_URL='' @ [CHR 0x22] @
           ''https://example.org/aws/userdata/publish-release-source.sh'' @
           [CHR 0x22] @ [CHR 0x0A] @
         ''        INIT_URL='' @ [CHR 0x22] @ [CHR 0x22] @ [CHR 0x0A] @
         ''        '' @ [CHR 0x0A] @
         ''        # aws/hhvm1/worker/worker.sh'' @ [CHR 0x0A] @
         ''      ''))"
    by (auto simp: u e w worker_env_def init_def)
  ultimately show ?thesis
    using pf pr by blast
qed

end
